theory Spec2Isabelle
  imports Main
begin

section \<open>Python text\<close>

text \<open>
  A Python \<open>str\<close> is a sequence of Unicode code points; it is modelled as the list of
  its code points. \<open>lit\<close> turns an ASCII literal of the model into such a text.
\<close>

type_synonym pystr = "nat list"

definition lit :: "string \<Rightarrow> pystr" where
  "lit s = map of_char s"

section \<open>Python values\<close>

text \<open>
  The values the program handles come out of \<open>response.json()\<close>: \<open>None\<close>, \<open>bool\<close>,
  \<open>int\<close>, \<open>float\<close>, \<open>str\<close>, \<open>list\<close> and \<open>dict\<close> with text keys. A dict is the
  list of its items in insertion order, its keys distinct. A finite float
  \<open>FFinite m e\<close> is \<open>m * 2 ^ e\<close>; \<open>FInf True\<close> is \<open>inf\<close>, \<open>FInf False\<close> is \<open>-inf\<close>.
\<close>

datatype pyfloat = FFinite int int | FInf bool | FNaN

datatype json =
    JNull
  | JBool bool
  | JInt int
  | JFloat pyfloat
  | JStr pystr
  | JList "json list"
  | JDict "(pystr \<times> json) list"

text \<open>The exceptions the program can meet; \<open>SystemExit n\<close> is \<open>sys.exit(n)\<close>.\<close>

datatype pyerror = AttributeError | TypeError | SystemExit int

text \<open>
  The character tables of the Python runtime are not part of the repository. Their
  ASCII rows are written out below; what the runtime answers beyond ASCII is a
  parameter of the model, so every result holds for whatever those tables say.
  \<open>rt_lower\<close> is \<open>str.lower()\<close> on a text holding a non-ASCII code point (it is
  not a character-wise map there), the next three are \<open>isupper\<close>, \<open>isdigit\<close> and
  \<open>isspace\<close> of one non-ASCII code point, and \<open>rt_repr\<close> is \<open>str(v)\<close> for a float,
  a list or a dict \<open>v\<close>.
\<close>

record pyrt =
  rt_lower :: "pystr \<Rightarrow> pystr"
  rt_isupper :: "nat \<Rightarrow> bool"
  rt_isdigit :: "nat \<Rightarrow> bool"
  rt_isspace :: "nat \<Rightarrow> bool"
  rt_repr :: "json \<Rightarrow> pystr"

definition is_ascii :: "nat \<Rightarrow> bool" where
  "is_ascii c = (c < 128)"

definition py_isspace :: "pyrt \<Rightarrow> nat \<Rightarrow> bool" where
  "py_isspace rt c =
     (if is_ascii c then (9 \<le> c \<and> c \<le> 13) \<or> (28 \<le> c \<and> c \<le> 32) else rt_isspace rt c)"

definition py_isupper :: "pyrt \<Rightarrow> nat \<Rightarrow> bool" where
  "py_isupper rt c = (if is_ascii c then 65 \<le> c \<and> c \<le> 90 else rt_isupper rt c)"

definition py_isdigit :: "pyrt \<Rightarrow> nat \<Rightarrow> bool" where
  "py_isdigit rt c = (if is_ascii c then 48 \<le> c \<and> c \<le> 57 else rt_isdigit rt c)"

definition ascii_lower :: "nat \<Rightarrow> nat" where
  "ascii_lower c = (if 65 \<le> c \<and> c \<le> 90 then c + 32 else c)"

definition py_lower :: "pyrt \<Rightarrow> pystr \<Rightarrow> pystr" where
  "py_lower rt s = (if list_all is_ascii s then map ascii_lower s else rt_lower rt s)"

text \<open>\<open>s.strip()\<close>, \<open>s.lstrip(chars)\<close>, \<open>sub in s\<close>, \<open>s.split(d)\<close> for a one-character \<open>d\<close>.\<close>

definition py_strip :: "pyrt \<Rightarrow> pystr \<Rightarrow> pystr" where
  "py_strip rt s = rev (dropWhile (py_isspace rt) (rev (dropWhile (py_isspace rt) s)))"

definition py_lstrip_chars :: "pystr \<Rightarrow> pystr \<Rightarrow> pystr" where
  "py_lstrip_chars chars s = dropWhile (\<lambda>c. c \<in> set chars) s"

fun py_in :: "pystr \<Rightarrow> pystr \<Rightarrow> bool" where
  "py_in sub [] = (sub = [])"
| "py_in sub (c # cs) = (take (length sub) (c # cs) = sub \<or> py_in sub cs)"

fun py_split :: "nat \<Rightarrow> pystr \<Rightarrow> pystr list" where
  "py_split d [] = [[]]"
| "py_split d (c # cs) =
     (if c = d then [] # py_split d cs
      else (case py_split d cs of [] \<Rightarrow> [[c]] | w # ws \<Rightarrow> (c # w) # ws))"

text \<open>\<open>s and P(s[0])\<close>: the first character is read only on a non-empty text.\<close>

fun first_char_is :: "(nat \<Rightarrow> bool) \<Rightarrow> pystr \<Rightarrow> bool" where
  "first_char_is P [] = False"
| "first_char_is P (c # cs) = P c"

section \<open>Python builtins on values\<close>

text \<open>\<open>bool(v)\<close>: what \<open>if v\<close>, \<open>not v\<close> and \<open>a or b\<close> test.\<close>

fun py_truthy :: "json \<Rightarrow> bool" where
  "py_truthy JNull = False"
| "py_truthy (JBool b) = b"
| "py_truthy (JInt n) = (n \<noteq> 0)"
| "py_truthy (JFloat (FFinite m e)) = (m \<noteq> 0)"
| "py_truthy (JFloat (FInf b)) = True"
| "py_truthy (JFloat FNaN) = True"
| "py_truthy (JStr s) = (s \<noteq> [])"
| "py_truthy (JList xs) = (xs \<noteq> [])"
| "py_truthy (JDict kvs) = (kvs \<noteq> [])"

text \<open>\<open>d.get(k, default)\<close>: only a dict has the attribute \<open>get\<close>.\<close>

fun dict_get :: "json \<Rightarrow> pystr \<Rightarrow> json \<Rightarrow> pyerror + json" where
  "dict_get (JDict kvs) k d = Inr (case map_of kvs k of None \<Rightarrow> d | Some v \<Rightarrow> v)"
| "dict_get v k d = Inl AttributeError"

text \<open>
  The items a \<open>for\<close> loop or \<open>list.extend\<close> draws from a value: the elements of a
  list, the keys of a dict, the characters of a text; anything else is not iterable.
\<close>

fun py_iter :: "json \<Rightarrow> pyerror + json list" where
  "py_iter (JList xs) = Inr xs"
| "py_iter (JDict kvs) = Inr (map (\<lambda>kv. JStr (fst kv)) kvs)"
| "py_iter (JStr s) = Inr (map (\<lambda>c. JStr [c]) s)"
| "py_iter v = Inl TypeError"

text \<open>\<open>n >= v\<close> for an int \<open>n\<close>: numbers compare by value, anything else raises.\<close>

fun py_int_ge :: "int \<Rightarrow> json \<Rightarrow> pyerror + bool" where
  "py_int_ge n (JInt t) = Inr (n \<ge> t)"
| "py_int_ge n (JBool b) = Inr (n \<ge> (if b then 1 else 0))"
| "py_int_ge n (JFloat (FFinite m e)) =
     Inr (if e \<ge> 0 then n \<ge> m * 2 ^ nat e else n * 2 ^ nat (- e) \<ge> m)"
| "py_int_ge n (JFloat (FInf b)) = Inr (\<not> b)"
| "py_int_ge n (JFloat FNaN) = Inr False"
| "py_int_ge n v = Inl TypeError"

text \<open>Decimal digits of a number, \<open>str(n)\<close> and the format \<open>{n:03d}\<close>.\<close>

function dec_nat :: "nat \<Rightarrow> pystr" where
  "dec_nat n = (if n < 10 then [48 + n] else dec_nat (n div 10) @ [48 + n mod 10])"
  by pat_completeness auto
termination
  by (relation "measure id") auto

declare dec_nat.simps [simp del]

definition dec_int :: "int \<Rightarrow> pystr" where
  "dec_int n = (if n < 0 then 45 # dec_nat (nat (- n)) else dec_nat (nat n))"

definition zero_pad :: "nat \<Rightarrow> pystr \<Rightarrow> pystr" where
  "zero_pad w s = replicate (w - length s) 48 @ s"

definition format_03d :: "int \<Rightarrow> pystr" where
  "format_03d n =
     (if n < 0 then 45 # zero_pad 2 (dec_nat (nat (- n))) else zero_pad 3 (dec_nat (nat n)))"

text \<open>\<open>str(v)\<close>, which is also what \<open>{v}\<close> in an f-string gives.\<close>

fun py_str :: "pyrt \<Rightarrow> json \<Rightarrow> pystr" where
  "py_str rt (JStr s) = s"
| "py_str rt JNull = lit ''None''"
| "py_str rt (JBool b) = (if b then lit ''True'' else lit ''False'')"
| "py_str rt (JInt n) = dec_int n"
| "py_str rt v = rt_repr rt v"

text \<open>\<open>' '.join(parts)\<close>: every part has to be a text.\<close>

fun join_space :: "json list \<Rightarrow> pyerror + pystr" where
  "join_space [] = Inr []"
| "join_space [JStr s] = Inr s"
| "join_space (JStr s # p # ps) =
     (case join_space (p # ps) of Inl e \<Rightarrow> Inl e | Inr r \<Rightarrow> Inr (s @ 32 # r))"
| "join_space (v # ps) = Inl TypeError"

definition py_replace_char :: "nat \<Rightarrow> nat \<Rightarrow> pystr \<Rightarrow> pystr" where
  "py_replace_char a b s = map (\<lambda>c. if c = a then b else c) s"

section \<open>Document text extraction\<close>

text \<open>
  \<open>traverse\<close> of \<open>_extract_text_from_adf\<close>, with the list \<open>text_parts\<close> it appends to
  passed through. \<open>for child in content\<close> raises TypeError when \<open>content\<close> is not
  iterable; the keys of a dict and the characters of a text are texts, on which
  \<open>traverse\<close> does nothing. The interpreter's bound on the depth of recursion is not
  part of the model: a document is taken to nest less deeply than that bound allows.
\<close>

definition visit_node :: "(pystr \<times> json) list \<Rightarrow> json list \<Rightarrow> json list" where
  "visit_node kvs text_parts =
     (let ty = (case map_of kvs (lit ''type'') of None \<Rightarrow> JNull | Some v \<Rightarrow> v) in
      if ty = JStr (lit ''text'')
      then text_parts @ [case map_of kvs (lit ''text'') of None \<Rightarrow> JStr [] | Some v \<Rightarrow> v]
      else if ty = JStr (lit ''paragraph'') \<or> ty = JStr (lit ''heading'')
      then (if text_parts \<noteq> [] \<and> last text_parts \<noteq> JStr [10]
            then text_parts @ [JStr [10]] else text_parts)
      else text_parts)"

lemma size_map_of:
  "map_of kvs k = Some v \<Longrightarrow> size v < Suc (size_list (size_prod (\<lambda>_. 0) size) kvs)"
  by (induction kvs) (auto split: if_splits)

function traverse :: "json \<Rightarrow> json list \<Rightarrow> pyerror + json list"
  and traverse_each :: "json list \<Rightarrow> json list \<Rightarrow> pyerror + json list" where
  "traverse (JDict kvs) text_parts =
     (case map_of kvs (lit ''content'') of
        None \<Rightarrow> Inr (visit_node kvs text_parts)
      | Some (JList xs) \<Rightarrow> traverse_each xs (visit_node kvs text_parts)
      | Some (JDict ys) \<Rightarrow> Inr (visit_node kvs text_parts)
      | Some (JStr s) \<Rightarrow> Inr (visit_node kvs text_parts)
      | Some JNull \<Rightarrow> Inl TypeError
      | Some (JBool b) \<Rightarrow> Inl TypeError
      | Some (JInt n) \<Rightarrow> Inl TypeError
      | Some (JFloat f) \<Rightarrow> Inl TypeError)"
| "traverse (JList xs) text_parts = traverse_each xs text_parts"
| "traverse JNull text_parts = Inr text_parts"
| "traverse (JBool b) text_parts = Inr text_parts"
| "traverse (JInt n) text_parts = Inr text_parts"
| "traverse (JFloat f) text_parts = Inr text_parts"
| "traverse (JStr s) text_parts = Inr text_parts"
| "traverse_each [] text_parts = Inr text_parts"
| "traverse_each (x # xs) text_parts =
     (case traverse x text_parts of
        Inl e \<Rightarrow> Inl e
      | Inr text_parts' \<Rightarrow> traverse_each xs text_parts')"
  by pat_completeness auto
termination
proof (relation "measure (\<lambda>a. case a of Inl (v, _) \<Rightarrow> size v | Inr (xs, _) \<Rightarrow> size_list size xs)")
  show "wf (measure (\<lambda>a. case a of Inl (v, _) \<Rightarrow> size v | Inr (xs, _) \<Rightarrow> size_list size xs))"
    by simp
next
  fix kvs :: "(pystr \<times> json) list" and text_parts :: "json list" and x2 xs
  assume "map_of kvs (lit ''content'') = Some x2" "x2 = JList xs"
  then have "size (JList xs) < Suc (size_list (size_prod (\<lambda>_. 0) size) kvs)"
    using size_map_of [of kvs "lit ''content''" "JList xs"] by simp
  then show "(Inr (xs, visit_node kvs text_parts), Inl (JDict kvs, text_parts))
      \<in> measure (\<lambda>a. case a of Inl (v, _) \<Rightarrow> size v | Inr (xs, _) \<Rightarrow> size_list size xs)"
    by simp
qed auto

definition extract_text_from_adf :: "pyrt \<Rightarrow> json \<Rightarrow> pyerror + pystr" where
  "extract_text_from_adf rt adf_doc =
     (case adf_doc of
        JDict kvs \<Rightarrow>
          (case traverse adf_doc [] of
             Inl e \<Rightarrow> Inl e
           | Inr text_parts \<Rightarrow>
               (case join_space text_parts of
                  Inl e \<Rightarrow> Inl e
                | Inr joined \<Rightarrow> Inr (py_strip rt joined)))
      | _ \<Rightarrow> Inr (py_str rt adf_doc))"

section \<open>Criteria extraction\<close>

text \<open>
  The characters of \<open>line.lstrip('...')\<close> at line 245: bullet U+2022, \<open>-\<close>, \<open>*\<close>,
  arrow U+2192, U+25BA, U+25AA, U+25B8 and the space.
\<close>

definition bullet_chars :: pystr where
  "bullet_chars = [8226, 45, 42, 8594, 9658, 9642, 9656, 32]"

text \<open>
  The state of the loop of \<open>_extract_acceptance_criteria\<close> is the flag
  \<open>in_criteria_section\<close> and the list \<open>criteria\<close>. One run of the loop body either
  goes on to the next line (\<open>continue\<close>, or the end of the body) or leaves the loop
  (\<open>break\<close>).
\<close>

datatype 'a loop_ctl = Next 'a | Break 'a

definition clean_line :: "pyrt \<Rightarrow> pystr \<Rightarrow> pystr" where
  "clean_line rt line =
     (let cleaned = py_lstrip_chars bullet_chars line;
          cleaned = (if first_char_is (py_isdigit rt) cleaned
                     then py_lstrip_chars (lit ''0123456789.)'') cleaned else cleaned)
      in py_strip rt cleaned)"

definition is_marker :: "pyrt \<Rightarrow> pystr \<Rightarrow> bool" where
  "is_marker rt line =
     (py_in (lit ''acceptance criteria'') (py_lower rt line) \<or>
      py_in (lit ''acceptance'') (py_lower rt line))"

definition criteria_body :: "pyrt \<Rightarrow> pystr \<Rightarrow> bool \<times> pystr list \<Rightarrow> (bool \<times> pystr list) loop_ctl" where
  "criteria_body rt raw st =
     (let line = py_strip rt raw; in_criteria_section = fst st; criteria = snd st in
      if is_marker rt line then Next (True, criteria)
      else if in_criteria_section \<and> first_char_is (py_isupper rt) line \<and> 58 \<in> set line
      then Break (in_criteria_section, criteria)
      else if in_criteria_section \<and> line \<noteq> [] then
        (let cleaned = clean_line rt line in
         if cleaned \<noteq> [] then Next (in_criteria_section, criteria @ [cleaned])
         else Next (in_criteria_section, criteria))
      else Next (in_criteria_section, criteria))"

fun criteria_loop :: "pyrt \<Rightarrow> pystr list \<Rightarrow> bool \<times> pystr list \<Rightarrow> pystr list" where
  "criteria_loop rt [] st = snd st"
| "criteria_loop rt (raw # rest) st =
     (case criteria_body rt raw st of
        Break st' \<Rightarrow> snd st'
      | Next st' \<Rightarrow> criteria_loop rt rest st')"

definition extract_acceptance_criteria :: "pyrt \<Rightarrow> pystr \<Rightarrow> pystr list" where
  "extract_acceptance_criteria rt description =
     criteria_loop rt (py_split 10 description) (False, [])"

section \<open>Record transformer\<close>

text \<open>
  A user story, one entry of \<open>userStories\<close>. \<open>id\<close> and \<open>title\<close> hold whatever value
  the ticket has under \<open>key\<close> and \<open>summary\<close>; \<open>description\<close> is a text whenever the
  story is produced, since \<open>_extract_acceptance_criteria\<close> has split it into lines.
\<close>

record user_story =
  us_id :: json
  us_title :: json
  us_description :: pystr
  us_acceptanceCriteria :: "pystr list"
  us_priority :: int
  us_passes :: bool
  us_notes :: pystr

record prd =
  prd_project :: pystr
  prd_branchName :: pystr
  prd_description :: pystr
  prd_userStories :: "user_story list"

text \<open>Sequencing of steps that may raise: the first exception ends the computation.\<close>

fun and_then :: "pyerror + 'a \<Rightarrow> ('a \<Rightarrow> pyerror + 'b) \<Rightarrow> pyerror + 'b" where
  "and_then (Inl e) f = Inl e"
| "and_then (Inr v) f = f v"

definition priority_map :: "(pystr \<times> int) list" where
  "priority_map =
     [(lit ''highest'', 1), (lit ''high'', 2), (lit ''medium'', 3), (lit ''low'', 4),
      (lit ''lowest'', 5)]"

text \<open>\<open>v.lower()\<close> and \<open>v.split(...)\<close> exist on a text only.\<close>

fun lower_method :: "pyrt \<Rightarrow> json \<Rightarrow> pyerror + pystr" where
  "lower_method rt (JStr s) = Inr (py_lower rt s)"
| "lower_method rt v = Inl AttributeError"

text \<open>Lines 134 to 139: the description of a ticket with title \<open>title\<close>.\<close>

definition resolve_description :: "pyrt \<Rightarrow> json \<Rightarrow> json \<Rightarrow> pyerror + json" where
  "resolve_description rt title description_obj =
     (case description_obj of
        JDict kvs \<Rightarrow> and_then (extract_text_from_adf rt description_obj) (\<lambda>t. Inr (JStr t))
      | _ \<Rightarrow> Inr (if py_truthy description_obj then description_obj
                  else JStr (lit ''Implement '' @ py_str rt title)))"

text \<open>Lines 142 to 148.\<close>

definition resolve_criteria :: "pyrt \<Rightarrow> json \<Rightarrow> json \<Rightarrow> pyerror + pystr list" where
  "resolve_criteria rt title description =
     (case description of
        JStr d \<Rightarrow>
          (let acceptance_criteria = extract_acceptance_criteria rt d in
           Inr (if acceptance_criteria = []
                then [lit ''Implement '' @ py_str rt title, lit ''Code passes all tests'',
                      lit ''Documentation updated'']
                else acceptance_criteria))
      | _ \<Rightarrow> Inl AttributeError)"

text \<open>Lines 151 to 153.\<close>

definition resolve_priority :: "pyrt \<Rightarrow> int \<Rightarrow> json \<Rightarrow> pyerror + int" where
  "resolve_priority rt idx fields_obj =
     and_then (dict_get fields_obj (lit ''priority'') (JDict [])) (\<lambda>priority_obj.
     and_then (if py_truthy priority_obj
               then and_then (dict_get priority_obj (lit ''name'') (JStr (lit ''medium'')))
                      (lower_method rt)
               else Inr (lit ''medium'')) (\<lambda>priority_name.
     Inr (case map_of priority_map priority_name of None \<Rightarrow> idx | Some n \<Rightarrow> n)))"

text \<open>Lines 156 and 157.\<close>

definition resolve_passes :: "pyrt \<Rightarrow> json \<Rightarrow> pyerror + bool" where
  "resolve_passes rt fields_obj =
     and_then (dict_get fields_obj (lit ''status'') (JDict [])) (\<lambda>status_obj.
     and_then (dict_get status_obj (lit ''name'') (JStr [])) (\<lambda>name.
     and_then (lower_method rt name) (\<lambda>status.
     Inr (status \<in> set [lit ''done'', lit ''closed'', lit ''resolved'', lit ''completed'']))))"

text \<open>The body of the loop at line 126, for the ticket at the 1-based position \<open>idx\<close>.\<close>

definition transform_ticket :: "pyrt \<Rightarrow> int \<Rightarrow> json \<Rightarrow> pyerror + user_story" where
  "transform_ticket rt idx ticket =
     and_then (dict_get ticket (lit ''key'') (JStr (lit ''US-'' @ format_03d idx))) (\<lambda>key.
     and_then (dict_get ticket (lit ''fields'') (JDict [])) (\<lambda>fields_obj.
     and_then (dict_get fields_obj (lit ''summary'') (JStr (lit ''Untitled''))) (\<lambda>title.
     and_then (dict_get fields_obj (lit ''description'') (JDict [])) (\<lambda>description_obj.
     and_then (resolve_description rt title description_obj) (\<lambda>description.
     and_then (resolve_criteria rt title description) (\<lambda>acceptance_criteria.
     and_then (resolve_priority rt idx fields_obj) (\<lambda>priority_num.
     and_then (resolve_passes rt fields_obj) (\<lambda>passes.
     Inr \<lparr>us_id = key, us_title = title,
          us_description = (case description of JStr d \<Rightarrow> d | _ \<Rightarrow> []),
          us_acceptanceCriteria = acceptance_criteria, us_priority = priority_num,
          us_passes = passes, us_notes = []\<rparr>))))))))"

fun transform_loop :: "pyrt \<Rightarrow> int \<Rightarrow> json list \<Rightarrow> user_story list \<Rightarrow> pyerror + user_story list" where
  "transform_loop rt idx [] user_stories = Inr user_stories"
| "transform_loop rt idx (ticket # tickets) user_stories =
     and_then (transform_ticket rt idx ticket) (\<lambda>user_story.
     transform_loop rt (idx + 1) tickets (user_stories @ [user_story]))"

text \<open>\<open>a or b\<close> on an optional text: \<open>None\<close> and the empty text are false.\<close>

fun or_else :: "pystr option \<Rightarrow> pystr \<Rightarrow> pystr" where
  "or_else None d = d"
| "or_else (Some s) d = (if s \<noteq> [] then s else d)"

definition transform_to_prd_format ::
  "pyrt \<Rightarrow> json list \<Rightarrow> pystr \<Rightarrow> pystr option \<Rightarrow> pystr option \<Rightarrow> pyerror + prd" where
  "transform_to_prd_format rt tickets project_name branch_name project_description =
     and_then (transform_loop rt 1 tickets []) (\<lambda>user_stories.
     Inr \<lparr>prd_project = project_name,
          prd_branchName = or_else branch_name
            (lit ''feature/'' @ py_replace_char 32 45 (py_lower rt project_name)),
          prd_description = or_else project_description
            (lit ''JIRA tickets for project '' @ project_name),
          prd_userStories = user_stories\<rparr>)"

section \<open>Paginated fetcher\<close>

text \<open>
  What \<open>requests.get\<close> is called with at lines 67 to 73, and what the \<open>try\<close> block
  has in hand after \<open>response.json()\<close>: the parsed body, or a RequestException with
  its message and, when it carries a response, that response's text.
\<close>

record request =
  req_url :: pystr
  req_headers :: "(pystr \<times> pystr) list"
  req_auth :: "pystr \<times> pystr"
  req_jql :: pystr
  req_startAt :: int
  req_maxResults :: int
  req_fields :: pystr
  req_timeout :: int

datatype response = RequestException pystr "pystr option" | Body json

text \<open>
  A server answers by the request alone. That covers every sequence of answers a run
  can meet: the loop goes on only after a page with records, so the offsets of one run
  grow strictly and no request is sent twice.
\<close>

type_synonym server = "request \<Rightarrow> response"

text \<open>
  The world outside the process: the requests sent so far, the texts printed so far
  (one entry for each call of \<open>print\<close>), and the files written so far.
\<close>

record world =
  requests :: "request list"
  stdout :: "pystr list"
  files :: "(pystr \<times> prd) list"

definition print :: "pystr \<Rightarrow> world \<Rightarrow> world" where
  "print s w = w\<lparr>stdout := stdout w @ [s]\<rparr>"

record jira_fetcher =
  jira_url :: pystr
  auth :: "pystr \<times> pystr"
  headers :: "(pystr \<times> pystr) list"

definition py_rstrip_chars :: "pystr \<Rightarrow> pystr \<Rightarrow> pystr" where
  "py_rstrip_chars chars s = rev (dropWhile (\<lambda>c. c \<in> set chars) (rev s))"

definition JiraFetcher :: "pystr \<Rightarrow> pystr \<Rightarrow> pystr \<Rightarrow> jira_fetcher" where
  "JiraFetcher url email api_token =
     \<lparr>jira_url = py_rstrip_chars [47] url, auth = (email, api_token),
      headers = [(lit ''Accept'', lit ''application/json''),
                 (lit ''Content-Type'', lit ''application/json'')]\<rparr>"

record fetch_state =
  start_at :: int
  all_issues :: "json list"
  outside :: world

definition search_request :: "jira_fetcher \<Rightarrow> pystr \<Rightarrow> int \<Rightarrow> int \<Rightarrow> request" where
  "search_request self jql start max_results =
     \<lparr>req_url = jira_url self @ lit ''/rest/api/2/search'', req_headers = headers self,
      req_auth = auth self, req_jql = jql, req_startAt = start,
      req_maxResults = max_results,
      req_fields =
        lit ''summary,status,assignee,created,updated,priority,issuetype,reporter,description'',
      req_timeout = 30\<rparr>"

text \<open>
  One run of the body of \<open>while True\<close> (lines 58 to 96). \<open>Inl\<close> is an exception leaving
  the function: \<open>SystemExit 1\<close> from the handler of RequestException, or an
  AttributeError or TypeError, which that handler does not catch.
\<close>

definition fetch_body ::
  "server \<Rightarrow> jira_fetcher \<Rightarrow> pystr \<Rightarrow> int \<Rightarrow> fetch_state \<Rightarrow> (pyerror \<times> world) + fetch_state loop_ctl" where
  "fetch_body srv self jql max_results st =
     (let req = search_request self jql (start_at st) max_results;
          w1 = (outside st)\<lparr>requests := requests (outside st) @ [req]\<rparr> in
      case srv req of
        RequestException msg text_opt \<Rightarrow>
          (let w2 = print (lit ''Error fetching tickets: '' @ msg) w1;
               w3 = (case text_opt of None \<Rightarrow> w2 | Some t \<Rightarrow> print (lit ''Response: '' @ t) w2)
           in Inl (SystemExit 1, w3))
      | Body data \<Rightarrow>
          (case dict_get data (lit ''issues'') (JList []) of
             Inl e \<Rightarrow> Inl (e, w1)
           | Inr issues \<Rightarrow>
               if \<not> py_truthy issues then Inr (Break (st\<lparr>outside := w1\<rparr>))
               else
                 (case py_iter issues of
                    Inl e \<Rightarrow> Inl (e, w1)
                  | Inr items \<Rightarrow>
                      (let all' = all_issues st @ items;
                           w2 = print (lit ''Fetched '' @ dec_int (int (length all')) @
                                       lit '' tickets so far...'') w1
                       in case and_then (dict_get data (lit ''total'') (JInt 0))
                                 (py_int_ge (start_at st + int (length items))) of
                            Inl e \<Rightarrow> Inl (e, w2)
                          | Inr True \<Rightarrow> Inr (Break (st\<lparr>all_issues := all', outside := w2\<rparr>))
                          | Inr False \<Rightarrow>
                              Inr (Next \<lparr>start_at = start_at st + int (length items),
                                         all_issues = all', outside = w2\<rparr>)))))"

text \<open>
  The loop can run for ever (a server may go on sending pages under a total that is
  never reached), so it is a partial function: \<open>None\<close> is the run that never returns.
\<close>

partial_function (option) fetch_loop ::
  "server \<Rightarrow> jira_fetcher \<Rightarrow> pystr \<Rightarrow> int \<Rightarrow> fetch_state \<Rightarrow> ((pyerror \<times> world) + fetch_state) option" where
  "fetch_loop srv self jql max_results st =
     (case fetch_body srv self jql max_results st of
        Inl ew \<Rightarrow> Some (Inl ew)
      | Inr (Break st') \<Rightarrow> Some (Inr st')
      | Inr (Next st') \<Rightarrow> fetch_loop srv self jql max_results st')"

text \<open>The query of line 53, and the state in which the loop is entered.\<close>

definition project_jql :: "pystr \<Rightarrow> pystr" where
  "project_jql project_key = lit ''project = '' @ project_key @ lit '' ORDER BY created DESC''"

definition first_state :: "pystr \<Rightarrow> world \<Rightarrow> fetch_state" where
  "first_state project_key w =
     \<lparr>start_at = 0, all_issues = [],
      outside = print (lit ''Fetching tickets for project: '' @ project_key) w\<rparr>"

definition fetch_all_tickets ::
  "server \<Rightarrow> jira_fetcher \<Rightarrow> pystr \<Rightarrow> int \<Rightarrow> world \<Rightarrow> ((pyerror + json list) \<times> world) option" where
  "fetch_all_tickets srv self project_key max_results w =
     (case fetch_loop srv self (project_jql project_key) max_results (first_state project_key w) of
        None \<Rightarrow> None
      | Some (Inl (e, w')) \<Rightarrow> Some (Inl e, w')
      | Some (Inr st) \<Rightarrow>
          Some (Inr (all_issues st),
                print (10 # lit ''Total tickets fetched: '' @ dec_int (int (length (all_issues st))))
                  (outside st)))"

section \<open>Entry point\<close>

text \<open>
  The parsed command line. \<open>--max-results\<close> has \<open>type=int\<close>, so it is an int by the
  time \<open>main\<close> reads it; the three options without a default are \<open>None\<close> when not
  given.
\<close>

record args =
  arg_url :: pystr
  arg_email :: pystr
  arg_token :: pystr
  arg_project :: pystr
  arg_project_name :: "pystr option"
  arg_branch_name :: "pystr option"
  arg_project_description :: "pystr option"
  arg_output :: pystr
  arg_max_results :: int

text \<open>
  \<open>main\<close> after \<open>parse_args\<close>. \<open>fs path\<close> is what opening and writing the output file
  does: \<open>None\<close> when it succeeds, the message of the IOError otherwise. The file is
  recorded with the PRD value that \<open>json.dump\<close> serialises. \<open>Inr ()\<close> is the normal
  return.
\<close>

definition main ::
  "pyrt \<Rightarrow> server \<Rightarrow> (pystr \<Rightarrow> pystr option) \<Rightarrow> args \<Rightarrow> world \<Rightarrow> ((pyerror + unit) \<times> world) option" where
  "main rt srv fs a w =
     (if arg_max_results a < 1 \<or> arg_max_results a > 100
      then Some (Inl (SystemExit 1), print (lit ''Error: --max-results must be between 1 and 100'') w)
      else
        (let fetcher = JiraFetcher (arg_url a) (arg_email a) (arg_token a) in
         case fetch_all_tickets srv fetcher (arg_project a) (arg_max_results a) w of
           None \<Rightarrow> None
         | Some (Inl e, w1) \<Rightarrow> Some (Inl e, w1)
         | Some (Inr tickets, w1) \<Rightarrow>
             (let project_name = or_else (arg_project_name a) (arg_project a) in
              case transform_to_prd_format rt tickets project_name (arg_branch_name a)
                     (arg_project_description a) of
                Inl e \<Rightarrow> Some (Inl e, w1)
              | Inr prd_data \<Rightarrow>
                  (case fs (arg_output a) of
                     Some msg \<Rightarrow>
                       Some (Inl (SystemExit 1), print (lit ''Error saving to file: '' @ msg) w1)
                   | None \<Rightarrow>
                       (let w2 = w1\<lparr>files := files w1 @ [(arg_output a, prd_data)]\<rparr>;
                            w3 = print ([10, 9989] @ lit '' PRD format saved to: '' @ arg_output a) w2;
                            w4 = print (lit ''   Project: '' @ prd_project prd_data) w3;
                            w5 = print (lit ''   User Stories: '' @
                                        dec_int (int (length (prd_userStories prd_data)))) w4
                        in Some (Inr (), w5))))))"

section \<open>Observations on raw issues\<close>

text \<open>
  What the statements below say about a raw issue is read off it with these functions.
  \<open>dict_lookup v k\<close> is the value under the key \<open>k\<close> when \<open>v\<close> is a dict that has the
  key. \<open>priority_label\<close> is the text at \<open>fields.priority.name\<close>, when the priority
  object is there and is not false.
\<close>

fun dict_lookup :: "json \<Rightarrow> pystr \<Rightarrow> json option" where
  "dict_lookup (JDict kvs) k = map_of kvs k"
| "dict_lookup v k = None"










section \<open>Observations on runs\<close>

text \<open>
  \<open>fetch_steps k st\<close> is the state in which the loop stands after \<open>k\<close> further pages,
  each of which made it go on to the next one; it is \<open>None\<close> when the loop has left
  before.
\<close>

fun fetch_steps ::
  "server \<Rightarrow> jira_fetcher \<Rightarrow> pystr \<Rightarrow> int \<Rightarrow> nat \<Rightarrow> fetch_state \<Rightarrow> fetch_state option" where
  "fetch_steps srv self jql max_results 0 st = Some st"
| "fetch_steps srv self jql max_results (Suc k) st =
     (case fetch_body srv self jql max_results st of
        Inr (Next st') \<Rightarrow> fetch_steps srv self jql max_results k st'
      | _ \<Rightarrow> None)"

text \<open>
  A server that holds the issues \<open>db\<close> of the project in query order, reports their
  number as the total, and serves from the requested offset as many records as
  requested, but no more than its own cap.
\<close>

definition paged_server :: "nat \<Rightarrow> json list \<Rightarrow> server" where
  "paged_server cap db req =
     Body (JDict [(lit ''issues'',
                   JList (take (min cap (nat (req_maxResults req)))
                            (drop (nat (req_startAt req)) db))),
                  (lit ''total'', JInt (int (length db)))])"

definition page_size :: "nat \<Rightarrow> int \<Rightarrow> nat" where
  "page_size cap max_results = min cap (nat max_results)"

definition ceil_div :: "nat \<Rightarrow> nat \<Rightarrow> nat" where
  "ceil_div t n = (t + n - 1) div n"

definition fresh_world :: world where
  "fresh_world = \<lparr>requests = [], stdout = [], files = []\<rparr>"

text \<open>What a run returned or raised, and the requests it has sent.\<close>

definition returned :: "('a \<times> world) option \<Rightarrow> 'a option" where
  "returned r = map_option fst r"

definition requests_sent :: "('a \<times> world) option \<Rightarrow> request list option" where
  "requests_sent r = map_option (\<lambda>x. requests (snd x)) r"

text \<open>The text printed at line 316.\<close>

definition config_error_message :: pystr where
  "config_error_message = lit ''Error: --max-results must be between 1 and 100''"

text \<open>
  \<open>continues w w'\<close>: the world \<open>w'\<close> has everything printed and sent in \<open>w\<close>, in the same
  order, and what has been printed since is not the text of line 316.
\<close>

definition new_output :: "world \<Rightarrow> world \<Rightarrow> pystr list" where
  "new_output w w' = drop (length (stdout w)) (stdout w')"

definition continues :: "world \<Rightarrow> world \<Rightarrow> bool" where
  "continues w w' \<longleftrightarrow>
     take (length (stdout w)) (stdout w') = stdout w \<and>
     take (length (requests w)) (requests w') = requests w \<and>
     config_error_message \<notin> set (new_output w w')"

definition world_of :: "(pyerror \<times> world) + fetch_state \<Rightarrow> world" where
  "world_of r = (case r of Inl ew \<Rightarrow> snd ew | Inr st \<Rightarrow> outside st)"

definition ctl_state :: "fetch_state loop_ctl \<Rightarrow> fetch_state" where
  "ctl_state c = (case c of Next st \<Rightarrow> st | Break st \<Rightarrow> st)"

section \<open>Example inputs\<close>

text \<open>A runtime whose tables answer nothing beyond ASCII, for running the model.\<close>

definition ascii_rt :: pyrt where
  "ascii_rt = \<lparr>rt_lower = (\<lambda>s. s), rt_isupper = (\<lambda>c. False), rt_isdigit = (\<lambda>c. False),
               rt_isspace = (\<lambda>c. False), rt_repr = (\<lambda>v. [])\<rparr>"

text \<open>The description of the criteria example; 10 is the line feed.\<close>

definition criteria_example :: pystr where
  "criteria_example =
     lit ''Some intro.'' @ 10 # lit ''Acceptance Criteria:'' @ 10 # lit ''- Do the thing'' @
     10 # lit ''2) Do another thing'' @ 10 # lit ''Notes: ignore this''"

text \<open>A description with a second marker line inside the open section.\<close>

definition second_marker_example :: pystr where
  "second_marker_example =
     lit ''Acceptance Criteria:'' @ 10 # lit ''- first'' @ 10 # lit ''acceptance tests pass'' @
     10 # lit ''- second''"

definition text_node :: "string \<Rightarrow> json" where
  "text_node s = JDict [(lit ''type'', JStr (lit ''text'')), (lit ''text'', JStr (lit s))]"

definition paragraph_node :: "json list \<Rightarrow> json" where
  "paragraph_node children =
     JDict [(lit ''type'', JStr (lit ''paragraph'')), (lit ''content'', JList children)]"

text \<open>The document of two paragraphs, \<open>Hello\<close> and \<open>World\<close>.\<close>

definition hello_world :: json where
  "hello_world =
     JDict [(lit ''type'', JStr (lit ''doc'')),
            (lit ''content'',
             JList [paragraph_node [text_node ''Hello''], paragraph_node [text_node ''World'']])]"









text \<open>Issues of a project, a fetcher, and two command lines.\<close>

definition issue :: "string \<Rightarrow> json" where
  "issue k = JDict [(lit ''key'', JStr (lit k))]"

definition five_issues :: "json list" where
  "five_issues = [issue ''PROJ-5'', issue ''PROJ-4'', issue ''PROJ-3'', issue ''PROJ-2'',
                  issue ''PROJ-1'']"

definition example_fetcher :: jira_fetcher where
  "example_fetcher =
     JiraFetcher (lit ''https://example.atlassian.net/'') (lit ''me@example.com'') (lit ''secret'')"

definition run_args :: args where
  "run_args =
     \<lparr>arg_url = lit ''https://example.atlassian.net/'', arg_email = lit ''me@example.com'',
      arg_token = lit ''secret'', arg_project = lit ''PROJ'', arg_project_name = None,
      arg_branch_name = None, arg_project_description = None, arg_output = lit ''prd.json'',
      arg_max_results = 50\<rparr>"

definition bad_args :: args where
  "bad_args = run_args\<lparr>arg_max_results := 0\<rparr>"

text \<open>
  A server that reports a total of five, sends two issues at offset 0 and an empty
  page at every other offset.
\<close>

definition stalling_server :: server where
  "stalling_server req =
     Body (JDict [(lit ''issues'',
                   JList (if req_startAt req = 0 then [issue ''PROJ-2'', issue ''PROJ-1''] else [])),
                  (lit ''total'', JInt 5)])"

section \<open>Properties of criteria extraction\<close>

lemmas text_defs =
  lit_def py_strip_def py_isspace_def is_ascii_def py_lower_def ascii_lower_def
  py_lstrip_chars_def py_isupper_def py_isdigit_def

lemmas criteria_defs =
  extract_acceptance_criteria_def criteria_body_def is_marker_def clean_line_def
  bullet_chars_def

text \<open>
  C2. On the description made of the lines \<open>Some intro.\<close>, \<open>Acceptance Criteria:\<close>,
  \<open>- Do the thing\<close>, \<open>2) Do another thing\<close> and \<open>Notes: ignore this\<close>, criteria
  extraction returns exactly \<open>Do the thing\<close> and \<open>Do another thing\<close>; inside the
  section the line \<open>Notes: ignore this\<close> leaves the loop and adds nothing.
\<close>

theorem criteria_example_result:
  "extract_acceptance_criteria rt criteria_example =
     [lit ''Do the thing'', lit ''Do another thing''] \<and>
   criteria_body rt (lit ''Notes: ignore this'') (True, criteria) = Break (True, criteria)"
  by (simp add: criteria_example_def text_defs criteria_defs)

text \<open>
  C6, as the claim has it, fails: a marker line met inside the open section is not
  emitted. Here the third line holds \<open>acceptance\<close> and is missing from the result.
\<close>

theorem second_marker_not_emitted:
  "extract_acceptance_criteria ascii_rt second_marker_example = [lit ''first'', lit ''second''] \<and>
   lit ''acceptance tests pass'' \<notin> set (extract_acceptance_criteria ascii_rt second_marker_example)"
  by (simp add: second_marker_example_def text_defs criteria_defs)

text \<open>
  C6, amended. A line whose stripped, lower-cased text contains \<open>acceptance\<close>, met
  while the section is open, is consumed as a header: the section stays open, the list
  of criteria is unchanged, and the loop goes on with the next line.
\<close>

theorem marker_in_open_section_consumed:
  "is_marker rt (py_strip rt raw) \<Longrightarrow>
     criteria_body rt raw (True, criteria) = Next (True, criteria) \<and>
     criteria_loop rt (raw # rest) (True, criteria) = criteria_loop rt rest (True, criteria)"
  by (simp add: criteria_body_def)

theorem marker_in_open_section_consumed_witness:
  "is_marker ascii_rt (py_strip ascii_rt (lit ''acceptance tests pass'')) \<and>
   criteria_body ascii_rt (lit ''acceptance tests pass'') (True, [lit ''first'']) =
     Next (True, [lit ''first'']) \<and>
   criteria_loop ascii_rt [lit ''acceptance tests pass'', lit ''- second''] (True, [lit ''first'']) =
     criteria_loop ascii_rt [lit ''- second''] (True, [lit ''first''])"
proof -
  have m: "is_marker ascii_rt (py_strip ascii_rt (lit ''acceptance tests pass''))"
    by (simp add: is_marker_def text_defs)
  show ?thesis
    using m marker_in_open_section_consumed [OF m, of "[lit ''first'']" "[lit ''- second'']"]
    by simp
qed

section \<open>Properties of document text extraction\<close>

lemmas adf_defs =
  hello_world_def paragraph_node_def text_node_def extract_text_from_adf_def visit_node_def

text \<open>
  C3, as the claim has it, fails: the two-paragraph document does not extract to
  \<open>Hello World\<close>.
\<close>

theorem hello_world_not_single_space:
  "extract_text_from_adf ascii_rt hello_world \<noteq> Inr (lit ''Hello World'')"
  by (simp add: adf_defs text_defs)

text \<open>
  C3, amended. The two-paragraph document extracts to \<open>Hello\<close>, a space, a line feed,
  a space and \<open>World\<close>: the separator emitted before the second paragraph is a part of
  its own, joined to its neighbours with spaces.
\<close>

theorem hello_world_extracted:
  "extract_text_from_adf rt hello_world = Inr (lit ''Hello '' @ 10 # lit '' World'')"
  by (simp add: adf_defs text_defs)

section \<open>Properties of the record transformer\<close>


















subsection \<open>Priority\<close>







subsection \<open>Tolerance of absent fields\<close>

















section \<open>Properties of the paginated fetcher\<close>

lemma fetch_loop_steps:
  "fetch_steps srv self jql mr k st = Some st' \<Longrightarrow>
     fetch_loop srv self jql mr st = fetch_loop srv self jql mr st'"
proof (induction k arbitrary: st)
  case 0
  then show ?case by simp
next
  case (Suc k)
  then obtain st1 where b: "fetch_body srv self jql mr st = Inr (Next st1)"
    and r: "fetch_steps srv self jql mr k st1 = Some st'"
    by (auto split: sum.splits loop_ctl.splits)
  from Suc.IH [OF r] b show ?case
    by (subst fetch_loop.simps) simp
qed

lemma fetch_body_empty:
  assumes "srv (search_request self jql (start_at st) mr) = Body data"
    and "dict_get data (lit ''issues'') (JList []) = Inr issues"
    and "\<not> py_truthy issues"
  shows "fetch_body srv self jql mr st =
     Inr (Break (st\<lparr>outside := (outside st)\<lparr>requests :=
        requests (outside st) @ [search_request self jql (start_at st) mr]\<rparr>\<rparr>))"
  using assms by (simp add: fetch_body_def Let_def)

text \<open>
  C7. Whatever the server has answered so far, when the loop, having gone on from
  page to page \<open>k\<close> times, receives a page whose \<open>issues\<close> are empty (or absent, or any
  other false value), \<open>fetch_all_tickets\<close> returns the issues accumulated from the
  earlier pages; that request is the last one sent, and nothing about the total
  reported before is asked.
\<close>

theorem empty_page_stops:
  assumes "fetch_steps srv self (project_jql project_key) max_results k
             (first_state project_key w) = Some st"
    and "srv (search_request self (project_jql project_key) (start_at st) max_results) = Body data"
    and "dict_get data (lit ''issues'') (JList []) = Inr issues"
    and "\<not> py_truthy issues"
  shows "fetch_all_tickets srv self project_key max_results w =
     Some (Inr (all_issues st),
           print (10 # lit ''Total tickets fetched: '' @ dec_int (int (length (all_issues st))))
             ((outside st)\<lparr>requests := requests (outside st) @
                [search_request self (project_jql project_key) (start_at st) max_results]\<rparr>))"
proof -
  have "fetch_loop srv self (project_jql project_key) max_results (first_state project_key w) =
        fetch_loop srv self (project_jql project_key) max_results st"
    by (rule fetch_loop_steps [OF assms(1)])
  also have "\<dots> = Some (Inr (st\<lparr>outside := (outside st)\<lparr>requests :=
        requests (outside st) @ [search_request self (project_jql project_key) (start_at st) max_results]\<rparr>\<rparr>))"
    using fetch_body_empty [of srv self "project_jql project_key" st max_results data issues]
      assms(2-4)
    by (subst fetch_loop.simps) simp
  finally show ?thesis
    by (simp add: fetch_all_tickets_def)
qed



theorem empty_page_stops_witness:
  "fetch_steps stalling_server example_fetcher (project_jql (lit ''PROJ'')) 50 1
     (first_state (lit ''PROJ'') fresh_world) \<noteq> None \<and>
   returned (fetch_all_tickets stalling_server example_fetcher (lit ''PROJ'') 50 fresh_world) =
     Some (Inr [issue ''PROJ-2'', issue ''PROJ-1'']) \<and>
   map_option (map req_startAt)
     (requests_sent (fetch_all_tickets stalling_server example_fetcher (lit ''PROJ'') 50
        fresh_world)) = Some [0, 2]"
proof -
  have k: "lit ''issues'' \<noteq> lit ''total''" by (simp add: lit_def)
  obtain st where
    s: "fetch_steps stalling_server example_fetcher (project_jql (lit ''PROJ'')) 50 1
          (first_state (lit ''PROJ'') fresh_world) = Some st" and
    c: "start_at st = 2" and
    a: "all_issues st = [issue ''PROJ-2'', issue ''PROJ-1'']" and
    r: "map req_startAt (requests (outside st)) = [0]"
    using k by (simp add: fetch_body_def stalling_server_def search_request_def first_state_def
        fresh_world_def print_def Let_def)
  have d: "stalling_server
        (search_request example_fetcher (project_jql (lit ''PROJ'')) (start_at st) 50) =
      Body (JDict [(lit ''issues'', JList []), (lit ''total'', JInt 5)])"
    using c by (simp add: stalling_server_def search_request_def)
  have g: "dict_get (JDict [(lit ''issues'', JList []), (lit ''total'', JInt 5)]) (lit ''issues'')
        (JList []) = Inr (JList [])"
    by simp
  have t: "\<not> py_truthy (JList [])" by simp
  from empty_page_stops [OF s d g t] s c a r show ?thesis
    by (simp add: returned_def requests_sent_def search_request_def print_def)
qed

text \<open>
  What a page does when the loop goes on after it, whatever the server: the page had
  records, they are appended to the accumulator, and the cursor moves by their number.
\<close>

lemma py_iter_truthy: "py_truthy v \<Longrightarrow> py_iter v = Inr items \<Longrightarrow> items \<noteq> []"
  by (cases v) auto

lemma fetch_body_Next:
  assumes "fetch_body srv self jql mr st = Inr (Next st')"
  shows "\<exists>data issues items.
           srv (search_request self jql (start_at st) mr) = Body data \<and>
           dict_get data (lit ''issues'') (JList []) = Inr issues \<and>
           py_iter issues = Inr items \<and> items \<noteq> [] \<and>
           start_at st' = start_at st + int (length items) \<and>
           all_issues st' = all_issues st @ items"
proof (cases "srv (search_request self jql (start_at st) mr)")
  case (RequestException msg t)
  with assms show ?thesis by (simp add: fetch_body_def Let_def)
next
  case (Body data)
  with assms obtain issues where i: "dict_get data (lit ''issues'') (JList []) = Inr issues"
    by (cases "dict_get data (lit ''issues'') (JList [])") (simp_all add: fetch_body_def Let_def)
  with assms Body have t: "py_truthy issues"
    by (auto simp: fetch_body_def Let_def split: if_splits)
  with assms Body i obtain items where it: "py_iter issues = Inr items"
    by (cases "py_iter issues") (simp_all add: fetch_body_def Let_def)
  from py_iter_truthy [OF t it] have ne: "items \<noteq> []" .
  from assms Body i t it have "start_at st' = start_at st + int (length items) \<and>
           all_issues st' = all_issues st @ items"
    by (auto simp: fetch_body_def Let_def split: sum.splits bool.splits if_splits)
  with Body i it ne show ?thesis by blast
qed

subsection \<open>A server that serves the pages in order\<close>

lemma requests_print: "requests (print s w) = requests w"
  by (simp add: print_def)

lemma less_ceil_div: "0 < m \<Longrightarrow> k < ceil_div T m \<longleftrightarrow> k * m < T"
proof -
  assume m: "0 < m"
  have "\<not> k < ceil_div T m \<longleftrightarrow> (T + m - 1) div m < Suc k"
    by (auto simp: ceil_div_def)
  also have "\<dots> \<longleftrightarrow> T + m - 1 < Suc k * m"
    using m by (simp add: div_less_iff_less_mult)
  also have "\<dots> \<longleftrightarrow> T \<le> k * m"
    using m by auto
  finally show ?thesis by auto
qed

lemma paged_body:
  assumes m: "0 < page_size cap N"
    and s: "start_at st = int s" "s < length db" "all_issues st = take s db"
  shows "\<exists>st'. requests (outside st') =
            requests (outside st) @ [search_request self jql (int s) N] \<and>
          (if length db \<le> s + page_size cap N
           then fetch_body (paged_server cap db) self jql N st = Inr (Break st') \<and>
                all_issues st' = db
           else fetch_body (paged_server cap db) self jql N st = Inr (Next st') \<and>
                start_at st' = int (s + page_size cap N) \<and>
                all_issues st' = take (s + page_size cap N) db)"
proof -
  let ?m = "page_size cap N"
  let ?page = "take ?m (drop s db)"
  have srv: "paged_server cap db (search_request self jql (start_at st) N) =
      Body (JDict [(lit ''issues'', JList ?page), (lit ''total'', JInt (int (length db)))])"
    using s(1) by (simp add: paged_server_def search_request_def page_size_def)
  have ne: "?page \<noteq> []" using m s(2) by simp
  have len: "length ?page = min ?m (length db - s)" by simp
  have app: "take s db @ ?page = take (s + ?m) db" by (simp add: take_add)
  have k: "lit ''issues'' \<noteq> lit ''total''" by (simp add: lit_def)
  show ?thesis
  proof (cases "length db \<le> s + ?m")
    case True
    then have "take (s + ?m) db = db" by simp
    with True srv ne app s k show ?thesis
      by (simp add: fetch_body_def Let_def requests_print)
  next
    case False
    then have "min ?m (length db - s) = ?m" by simp
    with False srv ne app s k show ?thesis
      by (simp add: fetch_body_def Let_def requests_print)
  qed
qed

lemma paged_loop:
  assumes m: "0 < page_size cap N"
  shows "k < ceil_div (length db) (page_size cap N) \<Longrightarrow>
     start_at st = int (k * page_size cap N) \<Longrightarrow>
     all_issues st = take (k * page_size cap N) db \<Longrightarrow>
     \<exists>st'. fetch_loop (paged_server cap db) self jql N st = Some (Inr st') \<and>
           all_issues st' = db \<and>
           requests (outside st') = requests (outside st) @
             map (\<lambda>i. search_request self jql (int (i * page_size cap N)) N)
               [k..<ceil_div (length db) (page_size cap N)]"
proof (induction "ceil_div (length db) (page_size cap N) - k" arbitrary: k st)
  case 0
  then show ?case by simp
next
  case (Suc n)
  let ?m = "page_size cap N" and ?K = "ceil_div (length db) (page_size cap N)"
  from Suc.prems(1) have lt: "k * ?m < length db"
    by (simp add: less_ceil_div [OF m])
  from paged_body [OF m Suc.prems(2) lt Suc.prems(3), of self jql] obtain st1 where
    r: "requests (outside st1) =
          requests (outside st) @ [search_request self jql (int (k * ?m)) N]" and
    b: "if length db \<le> k * ?m + ?m
        then fetch_body (paged_server cap db) self jql N st = Inr (Break st1) \<and>
             all_issues st1 = db
        else fetch_body (paged_server cap db) self jql N st = Inr (Next st1) \<and>
             start_at st1 = int (k * ?m + ?m) \<and>
             all_issues st1 = take (k * ?m + ?m) db"
    by blast
  show ?case
  proof (cases "length db \<le> k * ?m + ?m")
    case True
    then have "\<not> Suc k < ?K" by (simp add: less_ceil_div [OF m])
    with Suc.prems(1) have K: "?K = Suc k" by simp
    from True b have "fetch_loop (paged_server cap db) self jql N st = Some (Inr st1)"
      by (subst fetch_loop.simps) simp
    with True b r K show ?thesis by simp
  next
    case False
    then have lt': "Suc k < ?K" by (simp add: less_ceil_div [OF m])
    from False b have
      nx: "fetch_body (paged_server cap db) self jql N st = Inr (Next st1)" and
      s1: "start_at st1 = int (Suc k * ?m)" and a1: "all_issues st1 = take (Suc k * ?m) db"
      by (simp_all add: add.commute)
    from Suc.hyps(2) have n: "n = ?K - Suc k" by simp
    from Suc.hyps(1) [OF n lt' s1 a1] obtain st' where
      l: "fetch_loop (paged_server cap db) self jql N st1 = Some (Inr st')" and
      a: "all_issues st' = db" and
      q: "requests (outside st') = requests (outside st1) @
             map (\<lambda>i. search_request self jql (int (i * ?m)) N) [Suc k..<?K]"
      by blast
    from nx l have "fetch_loop (paged_server cap db) self jql N st = Some (Inr st')"
      by (subst fetch_loop.simps) simp
    moreover from Suc.prems(1) have "[k..<?K] = k # [Suc k..<?K]"
      by (simp add: upt_conv_Cons)
    ultimately show ?thesis using a q r by simp
  qed
qed

lemma paged_fetch:
  assumes "1 \<le> max_results" "1 \<le> cap"
  shows "\<exists>w'. fetch_all_tickets (paged_server cap db) self project_key max_results w =
             Some (Inr db, w') \<and>
           requests w' = requests w @
             map (\<lambda>i. search_request self (project_jql project_key)
                    (int (i * page_size cap max_results)) max_results)
               [0..<max 1 (ceil_div (length db) (page_size cap max_results))]"
proof -
  let ?m = "page_size cap max_results"
  let ?st = "first_state project_key w"
  from assms have m: "0 < ?m" by (simp add: page_size_def)
  show ?thesis
  proof (cases "db = []")
    case True
    have "paged_server cap [] (search_request self (project_jql project_key) (start_at ?st) max_results) =
       Body (JDict [(lit ''issues'', JList []), (lit ''total'', JInt 0)])"
      by (simp add: paged_server_def)
    moreover have "lit ''issues'' \<noteq> lit ''total''" by (simp add: lit_def)
    ultimately have "fetch_loop (paged_server cap []) self (project_jql project_key) max_results ?st =
        Some (Inr (?st\<lparr>outside := (outside ?st)\<lparr>requests := requests (outside ?st) @
          [search_request self (project_jql project_key) (start_at ?st) max_results]\<rparr>\<rparr>))"
      by (subst fetch_loop.simps) (simp add: fetch_body_def Let_def)
    moreover have "ceil_div 0 ?m = 0" using m by (simp add: ceil_div_def)
    ultimately show ?thesis using True
      by (simp add: fetch_all_tickets_def first_state_def requests_print)
  next
    case False
    then have "0 * ?m < length db" by simp
    then have k: "0 < ceil_div (length db) ?m" by (simp add: less_ceil_div [OF m])
    have "start_at ?st = int (0 * ?m)" "all_issues ?st = take (0 * ?m) db"
      by (simp_all add: first_state_def)
    from paged_loop [OF m k this, of self "project_jql project_key"] obtain st' where
      "fetch_loop (paged_server cap db) self (project_jql project_key) max_results ?st = Some (Inr st')"
      "all_issues st' = db"
      "requests (outside st') = requests (outside ?st) @
             map (\<lambda>i. search_request self (project_jql project_key) (int (i * ?m)) max_results)
               [0..<ceil_div (length db) ?m]"
      by blast
    moreover from k have "max 1 (ceil_div (length db) ?m) = ceil_div (length db) ?m" by simp
    ultimately show ?thesis
      by (simp add: fetch_all_tickets_def first_state_def requests_print)
  qed
qed


text \<open>
  C1, as the claim has it, fails: for a project without issues (T = 0) one request is
  sent, not none.
\<close>

theorem empty_project_one_request:
  "map_option length
     (requests_sent (fetch_all_tickets (paged_server 100 []) example_fetcher (lit ''PROJ'') 100
        fresh_world)) = Some 1 \<and>
   ceil_div 0 100 = 0"
proof -
  from paged_fetch [of 100 100 "[]" example_fetcher "lit ''PROJ''" fresh_world]
  obtain w' where
    "fetch_all_tickets (paged_server 100 []) example_fetcher (lit ''PROJ'') 100 fresh_world =
       Some (Inr [], w')"
    "requests w' = requests fresh_world @
       map (\<lambda>i. search_request example_fetcher (project_jql (lit ''PROJ''))
              (int (i * page_size 100 100)) 100)
         [0..<max 1 (ceil_div (length ([] :: json list)) (page_size 100 100))]"
    by auto
  then show ?thesis
    by (simp add: requests_sent_def ceil_div_def page_size_def fresh_world_def)
qed

text \<open>
  C1, amended. Let the server hold the T issues of the project in query order, report
  T as the total, and serve from each offset the next \<open>m\<close> records (fewer on the last
  page), where \<open>m\<close>, at least 1, is the requested page size \<open>N \<ge> 1\<close> or the server's own
  smaller cap. Then \<open>fetch_all_tickets\<close> returns, and returns exactly the server's T
  records in the server's order (so with distinct keys whenever the server's are); it
  sends one request when T = 0 and exactly \<open>\<lceil>T/m\<rceil>\<close> requests otherwise, and the request
  number \<open>i\<close> (from 0) has the offset \<open>i * m\<close>. With any server at all, a page after which
  the loop goes on has moved the cursor by the number of records received, not by \<open>N\<close>.
\<close>

theorem pagination_complete:
  assumes "1 \<le> max_results" "1 \<le> cap"
  shows "(\<exists>w'. fetch_all_tickets (paged_server cap db) self project_key max_results w =
             Some (Inr db, w') \<and>
           requests w' = requests w @
             map (\<lambda>i. search_request self (project_jql project_key)
                    (int (i * page_size cap max_results)) max_results)
               [0..<max 1 (ceil_div (length db) (page_size cap max_results))]) \<and>
         (fetch_body srv self jql max_results st = Inr (Next st') \<longrightarrow>
           (\<exists>items. items \<noteq> [] \<and> start_at st' = start_at st + int (length items) \<and>
                    all_issues st' = all_issues st @ items))"
proof (rule conjI)
  show "\<exists>w'. fetch_all_tickets (paged_server cap db) self project_key max_results w =
             Some (Inr db, w') \<and>
           requests w' = requests w @
             map (\<lambda>i. search_request self (project_jql project_key)
                    (int (i * page_size cap max_results)) max_results)
               [0..<max 1 (ceil_div (length db) (page_size cap max_results))]"
    using assms by (rule paged_fetch)
  show "fetch_body srv self jql max_results st = Inr (Next st') \<longrightarrow>
           (\<exists>items. items \<noteq> [] \<and> start_at st' = start_at st + int (length items) \<and>
                    all_issues st' = all_issues st @ items)"
    using fetch_body_Next [of srv self jql max_results st st'] by blast
qed

theorem pagination_complete_witness:
  "(1::int) \<le> 50 \<and> (1::nat) \<le> 2 \<and> length five_issues = 5 \<and>
   distinct (map (\<lambda>i. dict_lookup i (lit ''key'')) five_issues) \<and>
   returned (fetch_all_tickets (paged_server 2 five_issues) example_fetcher (lit ''PROJ'') 50
     fresh_world) = Some (Inr five_issues) \<and>
   map_option (map req_startAt)
     (requests_sent (fetch_all_tickets (paged_server 2 five_issues) example_fetcher (lit ''PROJ'') 50
        fresh_world)) = Some [0, 2, 4] \<and>
   ceil_div 5 (page_size 2 50) = 3 \<and>
   (\<exists>st'. fetch_body (paged_server 2 five_issues) example_fetcher (project_jql (lit ''PROJ'')) 50
            (first_state (lit ''PROJ'') fresh_world) = Inr (Next st') \<and>
          start_at st' = int (length (all_issues st')) \<and> start_at st' = 2)"
proof -
  have k: "lit ''issues'' \<noteq> lit ''total''" by (simp add: lit_def)
  obtain st1 where
    nx: "fetch_body (paged_server 2 five_issues) example_fetcher (project_jql (lit ''PROJ'')) 50
           (first_state (lit ''PROJ'') fresh_world) = Inr (Next st1)" and
    s2: "start_at st1 = 2"
    using k by (simp add: fetch_body_def paged_server_def five_issues_def search_request_def
        first_state_def Let_def)
  from pagination_complete [where srv = "paged_server 2 five_issues" and self = example_fetcher
      and jql = "project_jql (lit ''PROJ'')" and st = "first_state (lit ''PROJ'') fresh_world"
      and st' = st1 and max_results = 50 and cap = 2, THEN conjunct2] nx
  have s1: "start_at st1 = int (length (all_issues st1))"
    by (auto simp: first_state_def)
  have a: "(1::int) \<le> 50" and b: "(1::nat) \<le> 2" by simp_all
  have l: "length five_issues = 5" by (simp add: five_issues_def)
  have d: "distinct (map (\<lambda>i. dict_lookup i (lit ''key'')) five_issues)"
    by (simp add: five_issues_def issue_def lit_def)
  have c: "ceil_div 5 (page_size 2 50) = 3" by (simp add: ceil_div_def page_size_def)
  have u: "[0..<3] = [0, 1, 2]" by (simp add: upt_rec)
  from pagination_complete [OF a b, of five_issues example_fetcher "lit ''PROJ''" fresh_world,
      THEN conjunct1]
  obtain w' where
    "fetch_all_tickets (paged_server 2 five_issues) example_fetcher (lit ''PROJ'') 50 fresh_world =
       Some (Inr five_issues, w')"
    "requests w' = requests fresh_world @
       map (\<lambda>i. search_request example_fetcher (project_jql (lit ''PROJ''))
              (int (i * page_size 2 50)) 50)
         [0..<max 1 (ceil_div (length five_issues) (page_size 2 50))]"
    by blast
  with l c u d nx s1 s2 show ?thesis
    by (simp add: returned_def requests_sent_def fresh_world_def search_request_def page_size_def)
qed

section \<open>Properties of the entry point\<close>

lemma continues_iff:
  "continues w w' \<longleftrightarrow>
     (\<exists>ss rs. stdout w' = stdout w @ ss \<and> requests w' = requests w @ rs \<and>
              config_error_message \<notin> set ss)"
proof
  assume c: "continues w w'"
  then have "stdout w' = stdout w @ new_output w w'"
    "requests w' = requests w @ drop (length (requests w)) (requests w')"
    unfolding continues_def new_output_def
    by (metis append_take_drop_id)+
  with c show "\<exists>ss rs. stdout w' = stdout w @ ss \<and> requests w' = requests w @ rs \<and>
              config_error_message \<notin> set ss"
    unfolding continues_def by blast
next
  assume "\<exists>ss rs. stdout w' = stdout w @ ss \<and> requests w' = requests w @ rs \<and>
              config_error_message \<notin> set ss"
  then show "continues w w'"
    by (auto simp: continues_def new_output_def)
qed

lemma continues_refl: "continues w w"
  by (simp add: continues_def new_output_def)

lemma continues_trans: "continues w w1 \<Longrightarrow> continues w1 w2 \<Longrightarrow> continues w w2"
  unfolding continues_iff by fastforce

lemma continues_print: "s \<noteq> config_error_message \<Longrightarrow> continues w (print s w)"
  by (auto simp: continues_iff print_def)

lemma continues_send: "continues w (w\<lparr>requests := requests w @ [r]\<rparr>)"
  by (simp add: continues_iff)

lemma continues_write: "continues w (w\<lparr>files := f\<rparr>)"
  by (simp add: continues_iff)

lemma not_config_error:
  "lit ''Error fetching tickets: '' @ a \<noteq> config_error_message"
  "lit ''Response: '' @ a \<noteq> config_error_message"
  "lit ''Fetched '' @ a \<noteq> config_error_message"
  "10 # a \<noteq> config_error_message"
  "lit ''Fetching tickets for project: '' @ a \<noteq> config_error_message"
  "lit ''Error saving to file: '' @ a \<noteq> config_error_message"
  "[10, 9989] @ a \<noteq> config_error_message"
  "lit ''   Project: '' @ a \<noteq> config_error_message"
  "lit ''   User Stories: '' @ a \<noteq> config_error_message"
  by (simp_all add: config_error_message_def lit_def)

lemma fetch_body_continues:
  "fetch_body srv self jql mr st = Inl (e, w') \<Longrightarrow>
     continues (outside st) w' \<and> length (requests (outside st)) < length (requests w')"
  "fetch_body srv self jql mr st = Inr c \<Longrightarrow>
     continues (outside st) (outside (ctl_state c)) \<and>
     length (requests (outside st)) < length (requests (outside (ctl_state c)))"
proof -
  let ?w1 = "(outside st)\<lparr>requests := requests (outside st) @
      [search_request self jql (start_at st) mr]\<rparr>"
  have w1: "continues (outside st) ?w1" by (rule continues_send)
  have p: "\<And>s w. s \<noteq> config_error_message \<Longrightarrow> continues ?w1 w \<Longrightarrow> continues (outside st) (print s w)"
    using continues_trans [OF w1] continues_trans continues_print by blast
  have p1: "\<And>s. s \<noteq> config_error_message \<Longrightarrow> continues (outside st) (print s ?w1)"
    using p continues_refl by blast
  have p2: "\<And>s t. s \<noteq> config_error_message \<Longrightarrow> t \<noteq> config_error_message \<Longrightarrow>
      continues (outside st) (print t (print s ?w1))"
    using continues_trans [OF p1 continues_print] by blast
  show "fetch_body srv self jql mr st = Inl (e, w') \<Longrightarrow>
     continues (outside st) w' \<and> length (requests (outside st)) < length (requests w')"
    by (auto simp: fetch_body_def Let_def w1 p1 p2 not_config_error requests_print
        split: response.splits sum.splits option.splits if_splits bool.splits)
  show "fetch_body srv self jql mr st = Inr c \<Longrightarrow>
     continues (outside st) (outside (ctl_state c)) \<and>
     length (requests (outside st)) < length (requests (outside (ctl_state c)))"
    by (auto simp: fetch_body_def Let_def ctl_state_def w1 p1 p2 not_config_error requests_print
        split: response.splits sum.splits option.splits if_splits bool.splits)
qed

lemma fetch_loop_continues:
  assumes "fetch_loop srv self jql mr st = Some r"
  shows "continues (outside st) (world_of r) \<and>
         length (requests (outside st)) < length (requests (world_of r))"
proof (rule fetch_loop.raw_induct
    [where P = "\<lambda>srv self jql mr st r. continues (outside st) (world_of r) \<and>
         length (requests (outside st)) < length (requests (world_of r))", OF _ assms],
    goal_cases)
  case (1 f srv self jql mr st r)
  show ?case
  proof (cases "fetch_body srv self jql mr st")
    case (Inl ew)
    with 1(2) have r: "r = Inl ew" by simp
    from fetch_body_continues(1) [of srv self jql mr st "fst ew" "snd ew"] Inl r
    show ?thesis by (simp add: world_of_def)
  next
    case (Inr c)
    show ?thesis
    proof (cases c)
      case (Break st')
      with Inr 1(2) have r: "r = Inr st'" by simp
      from fetch_body_continues(2) [OF Inr] Break r
      show ?thesis by (simp add: world_of_def ctl_state_def)
    next
      case (Next st')
      with Inr 1(2) have "f srv self jql mr st' = Some r" by simp
      from 1(1) [OF this] have
        a: "continues (outside st') (world_of r)" and
        b: "length (requests (outside st')) < length (requests (world_of r))" by simp_all
      from fetch_body_continues(2) [OF Inr] Next have
        c: "continues (outside st) (outside st')" and
        d: "length (requests (outside st)) < length (requests (outside st'))"
        by (simp_all add: ctl_state_def)
      from continues_trans [OF c a] b d show ?thesis by simp
    qed
  qed
qed

lemma continues_saved:
  "a \<noteq> config_error_message \<Longrightarrow> b \<noteq> config_error_message \<Longrightarrow>
   c \<noteq> config_error_message \<Longrightarrow>
     continues w (print c (print b (print a (w\<lparr>files := f\<rparr>))))"
  by (auto simp: continues_iff print_def)

text \<open>
  C9. A page size below 1 or above 100 makes \<open>main\<close> print the text of line 316 and
  exit with status 1; the world is otherwise unchanged, so no request has been sent
  and no file written. With a page size from 1 to 100 that text is never printed: any
  run that ends has sent at least one request and has printed only other texts.
\<close>

theorem page_size_validated:
  "(arg_max_results a < 1 \<or> arg_max_results a > 100 \<longrightarrow>
      main rt srv fs a w =
        Some (Inl (SystemExit 1), w\<lparr>stdout := stdout w @ [config_error_message]\<rparr>)) \<and>
   (1 \<le> arg_max_results a \<and> arg_max_results a \<le> 100 \<longrightarrow>
      (\<forall>r w'. main rt srv fs a w = Some (r, w') \<longrightarrow>
         continues w w' \<and> length (requests w) < length (requests w')))"
proof (rule conjI; intro impI allI)
  assume "arg_max_results a < 1 \<or> arg_max_results a > 100"
  then show "main rt srv fs a w =
        Some (Inl (SystemExit 1), w\<lparr>stdout := stdout w @ [config_error_message]\<rparr>)"
    by (auto simp: main_def print_def config_error_message_def)
next
  fix r w'
  assume range: "1 \<le> arg_max_results a \<and> arg_max_results a \<le> 100"
    and m: "main rt srv fs a w = Some (r, w')"
  let ?self = "JiraFetcher (arg_url a) (arg_email a) (arg_token a)"
  from range m obtain fr w1 where
    f: "fetch_all_tickets srv ?self (arg_project a) (arg_max_results a) w = Some (fr, w1)"
    by (auto simp: main_def Let_def split: option.splits)
  then obtain lr where
    l: "fetch_loop srv ?self (project_jql (arg_project a)) (arg_max_results a)
          (first_state (arg_project a) w) = Some lr"
    by (auto simp: fetch_all_tickets_def split: option.splits)
  from fetch_loop_continues [OF l] have
    c0: "continues (outside (first_state (arg_project a) w)) (world_of lr)" and
    n0: "length (requests (outside (first_state (arg_project a) w))) < length (requests (world_of lr))"
    by simp_all
  have "continues w (outside (first_state (arg_project a) w))"
    by (simp add: first_state_def continues_print not_config_error)
  from continues_trans [OF this c0] have c1: "continues w (world_of lr)" .
  from n0 have n1: "length (requests w) < length (requests (world_of lr))"
    by (simp add: first_state_def requests_print)
  have c2: "continues (world_of lr) w1 \<and> requests w1 = requests (world_of lr)"
    using f l
    by (auto simp: fetch_all_tickets_def world_of_def continues_refl continues_print
        not_config_error requests_print split: sum.splits)
  have c3: "continues w1 w' \<and> requests w' = requests w1"
    using range m f
    by (auto simp: main_def Let_def continues_refl continues_print continues_saved
        not_config_error requests_print split: sum.splits option.splits)
  from c1 c2 c3 n1 continues_trans
  show "continues w w' \<and> length (requests w) < length (requests w')"
    by metis
qed

theorem page_size_validated_witness:
  "arg_max_results bad_args < 1 \<and>
   main ascii_rt (paged_server 100 []) (\<lambda>path. None) bad_args fresh_world =
     Some (Inl (SystemExit 1), fresh_world\<lparr>stdout := [config_error_message]\<rparr>) \<and>
   1 \<le> arg_max_results run_args \<and> arg_max_results run_args \<le> 100 \<and>
   (\<exists>w'. main ascii_rt (paged_server 100 []) (\<lambda>path. None) run_args fresh_world =
           Some (Inr (), w') \<and>
         continues fresh_world w' \<and> length (requests fresh_world) < length (requests w'))"
proof -
  have b: "arg_max_results bad_args < 1 \<or> arg_max_results bad_args > 100"
    by (simp add: bad_args_def)
  have g: "1 \<le> arg_max_results run_args \<and> arg_max_results run_args \<le> 100"
    by (simp add: run_args_def)
  from paged_fetch [of 50 100 "[]" "JiraFetcher (arg_url run_args) (arg_email run_args) (arg_token run_args)"
      "arg_project run_args" fresh_world]
  obtain w1 where
    "fetch_all_tickets (paged_server 100 [])
       (JiraFetcher (arg_url run_args) (arg_email run_args) (arg_token run_args))
       (arg_project run_args) 50 fresh_world = Some (Inr [], w1)"
    by auto
  then obtain w' where
    m: "main ascii_rt (paged_server 100 []) (\<lambda>path. None) run_args fresh_world = Some (Inr (), w')"
    by (simp add: main_def run_args_def transform_to_prd_format_def Let_def)
  from page_size_validated [of bad_args ascii_rt "paged_server 100 []" "\<lambda>path. None" fresh_world] b
  have x: "main ascii_rt (paged_server 100 []) (\<lambda>path. None) bad_args fresh_world =
     Some (Inl (SystemExit 1), fresh_world\<lparr>stdout := [config_error_message]\<rparr>)"
    by (simp add: fresh_world_def)
  from page_size_validated [of run_args ascii_rt "paged_server 100 []" "\<lambda>path. None" fresh_world] g m
  have y: "continues fresh_world w' \<and> length (requests fresh_world) < length (requests w')"
    by blast
  from b g m x y show ?thesis by (simp add: bad_args_def)
qed

end
